theory Spec2Isabelle
  imports Main "HOL-Library.Sublist"
begin

text \<open>
  The client of the Fun Profile single sign-on SDK (\<open>FunProfileClient\<close>): OAuth 2.0 with
  PKCE, a token store that is refreshed on demand, and a debounced sync manager.
  The client's \<open>async\<close> methods are embedded as programs over a world that holds the
  token store, the client's fields and the log of the requests sent; the network is a
  parameter of the runs.
\<close>

section \<open>Data model\<close>

subsection \<open>Application types (types.ts)\<close>

text \<open>
  Fields keep their names. Where two interfaces share a field name, or the name is
  taken in Isabelle, one of them carries a prefix: \<open>auth_\<close> in \<open>AuthResult\<close>,
  \<open>sync_\<close> in \<open>SyncResult\<close>, \<open>cfg_\<close> in \<open>FunProfileConfig\<close>, \<open>json_\<close> on the wire;
  \<open>FunUser.id\<close> is \<open>userId\<close>, \<open>UserRewards.status\<close> is \<open>rewards_status\<close> and
  \<open>RequestOptions.method\<close> is \<open>http_method\<close>.

  \<open>TokenData\<close> is the record kept by the token store. \<open>expiresAt\<close> is an absolute
  instant in milliseconds. \<open>refreshToken\<close> is declared \<open>string\<close> in types.ts, but
  \<open>handleTokenResponse\<close> stores the response's \<open>refresh_token\<close> through an unchecked
  cast, so at run time the slot holds \<open>undefined\<close> when the server sent none:
  \<open>None\<close> stands for that.
\<close>

record TokenData =
  accessToken :: string
  refreshToken :: "string option"
  expiresAt :: int
  scope :: "string list"

record SoulNft =
  element :: string
  level :: int
  tokenId :: "string option"
  mintedAt :: "string option"

record UserRewards =
  pending :: int
  approved :: int
  claimed :: int
  rewards_status :: string

record FunUser =
  userId :: string
  funId :: string
  username :: string
  fullName :: "string option"
  avatarUrl :: "string option"
  email :: "string option"
  walletAddress :: "string option"
  externalWalletAddress :: "string option"
  soul :: "SoulNft option"
  rewards :: "UserRewards option"

record AuthResult =
  auth_accessToken :: string
  auth_refreshToken :: "string option"
  expiresIn :: int
  auth_scope :: string
  auth_user :: "FunUser option"
  isNewUser :: "bool option"

record SyncResult =
  sync_success :: bool
  syncedAt :: string
  syncMode :: string
  syncCount :: int
  categoriesUpdated :: "string list"
  dataSize :: int

text \<open>Values of the fields of a queued partial data object.\<close>

datatype jv = JNull | JBool bool | JNum int | JStr string

type_synonym data_object = "string \<rightharpoonup> jv"
type_synonym platform_data = "string \<rightharpoonup> data_object"

datatype sync_mode = Merge | Replace | Append

text \<open>
  A client timestamp is either a string supplied by the caller or the ISO rendering
  \<open>new Date(t).toISOString()\<close> of an instant \<open>t\<close>.
\<close>

datatype timestamp = Timestamp string | ISOString int

record SyncOptions =
  mode :: sync_mode
  data :: platform_data
  categories :: "string list option"
  clientTimestamp :: "timestamp option"

subsection \<open>Errors (the classes imported from errors.ts)\<close>

text \<open>
  The message of an exception that is not an SDK error: a text, or the message of
  the \<open>TypeError\<close> that reading the named property of \<open>null\<close> raises, whose wording is
  the engine's.
\<close>

datatype message = Message string | NullRead string

text \<open>
  One constructor per error class the client throws. \<open>JsError\<close> is any exception
  that is not an SDK error: a rejected \<open>fetch\<close>, a body that does not parse, a
  property read of \<open>null\<close>. \<open>NetworkError\<close> carries the message of the exception it
  wraps. The optional strings are constructor arguments that the client may pass as
  \<open>undefined\<close>; \<open>RateLimitError None\<close> carries \<open>NaN\<close>.
\<close>

type_synonym json = string

datatype error =
    FunProfileError string string "json option"
  | TokenExpiredError
  | InvalidTokenError "string option"
  | RateLimitError "int option"
  | ValidationError string "json option"
  | NetworkError message
  | JsError message

text \<open>
  Modelled from the spec: errors.ts is not part of the sources. The documentation
  calls \<open>FunProfileError\<close> the base class of the SDK's error classes, so
  \<open>error instanceof FunProfileError\<close> holds for each of them and fails for any
  other exception.
\<close>

fun instanceof_FunProfileError :: "error \<Rightarrow> bool" where
  "instanceof_FunProfileError (JsError _) = False"
| "instanceof_FunProfileError _ = True"

subsection \<open>The wire: requests, responses and parsed bodies\<close>

datatype request_body =
    AuthorizationCodeGrant string string string "string option" string
  | RefreshTokenGrant "string option" string "string option"
  | RevokeRequest string string
  | SyncRequest sync_mode platform_data "string list option" timestamp

record RequestOptions =
  http_method :: "string option"
  headers :: "(string \<rightharpoonup> string) option"
  body :: "request_body option"

text \<open>What \<open>fetch\<close> is called with.\<close>

record http_request =
  url :: string
  req_method :: string
  req_headers :: "string \<rightharpoonup> string"
  req_body :: "request_body option"

record soul_nft_json =
  soul_element :: string
  soul_level :: int
  token_id :: "string option"
  minted_at :: "string option"

record rewards_json =
  json_pending :: int
  json_approved :: int
  json_claimed :: int
  json_status :: string

record user_json =
  json_id :: string
  fun_id :: string
  json_username :: string
  full_name :: "string option"
  avatar_url :: "string option"
  json_email :: "string option"
  wallet_address :: "string option"
  external_wallet_address :: "string option"
  soul_nft :: "soul_nft_json option"
  json_rewards :: "rewards_json option"

text \<open>
  A parsed response body, with the fields the client reads. A field is optional
  here when some reader in the client guards it (\<open>||\<close>, \<open>?.\<close>, \<open>? :\<close>, \<open>if\<close>);
  the fields the client reads unguarded have the type its casts and result types
  give them.
\<close>

record response_body =
  access_token :: string
  refresh_token :: "string option"
  expires_in :: int
  json_scope :: "string option"
  json_user :: "user_json option"
  is_new_user :: "bool option"
  json_error :: "string option"
  error_description :: "string option"
  details :: "json option"
  success :: bool
  synced_at :: string
  json_sync_mode :: string
  sync_count :: int
  categories_updated :: "string list"
  data_size :: int

text \<open>
  What a body parses to: \<open>null\<close>, of which no property can be read, or a value whose
  properties are read as the fields above.
\<close>

datatype parsed = JsonNull | JsonObject response_body

text \<open>
  A \<open>Response\<close>: the status, the two headers the client reads, and what
  \<open>response.json()\<close> settles to (\<open>Inl\<close> the message of the parse error). A header
  value is a byte string, one character for each byte.
\<close>

record response =
  status :: nat
  content_type :: "string option"
  retry_after :: "string option"
  json_result :: "string + parsed"

definition ok :: "response \<Rightarrow> bool" where
  "ok r = (200 \<le> status r \<and> status r \<le> 299)"

text \<open>
  A call of \<open>fetch\<close> either rejects (with the message of the exception) or resolves
  to a response. \<open>elapsed\<close> is the time in milliseconds that has passed, when the call
  settles, since the client last ran.
\<close>

datatype fetch_outcome = Rejected string | Resolved response

record fetch_result =
  elapsed :: nat
  outcome :: fetch_outcome

subsection \<open>Configuration and constants\<close>

text \<open>
  constants.ts is not part of the sources: the constants the client imports from it
  are parameters of the model.
\<close>

record constants =
  DEFAULT_BASE_URL :: string
  DEFAULT_SCOPES :: "string list"
  TOKEN_REFRESH_BUFFER :: int
  ENDPOINTS_token :: string
  ENDPOINTS_refresh :: string
  ENDPOINTS_revoke :: string
  ENDPOINTS_syncData :: string

record FunProfileConfig =
  cfg_clientId :: string
  cfg_clientSecret :: "string option"
  cfg_redirectUri :: string
  cfg_baseUrl :: "string option"
  cfg_scopes :: "string list option"
  cfg_autoRefresh :: "bool option"

text \<open>The resolved configuration \<open>this.config\<close>; the storage is the store of the world below.\<close>

record config =
  clientId :: string
  clientSecret :: "string option"
  redirectUri :: string
  baseUrl :: string
  scopes :: "string list"
  autoRefresh :: bool

text \<open>The constructor: \<open>||\<close> takes the default for a missing or empty string.\<close>

definition FunProfileClient :: "constants \<Rightarrow> FunProfileConfig \<Rightarrow> config" where
  "FunProfileClient K c =
     \<lparr> clientId = cfg_clientId c,
       clientSecret = cfg_clientSecret c,
       redirectUri = cfg_redirectUri c,
       baseUrl = (case cfg_baseUrl c of
                    None \<Rightarrow> DEFAULT_BASE_URL K
                  | Some b \<Rightarrow> if b = [] then DEFAULT_BASE_URL K else b),
       scopes = (case cfg_scopes c of None \<Rightarrow> DEFAULT_SCOPES K | Some ss \<Rightarrow> ss),
       autoRefresh = (cfg_autoRefresh c \<noteq> Some False) \<rparr>"

subsection \<open>The debounced sync manager\<close>

text \<open>
  Modelled from the spec: sync-manager.ts is not part of the sources. The pending
  queue maps a category to a partial data object; \<open>timer\<close> is the instant at which the
  debounce timer fires, when one is armed. The callback given to the constructor is
  fixed by \<open>getSyncManager\<close>; the model passes it where \<open>flush\<close> is called.
\<close>

record DebouncedSyncManager =
  debounceMs :: int
  queue_data :: platform_data
  timer :: "int option"

definition new_DebouncedSyncManager :: "int \<Rightarrow> DebouncedSyncManager" where
  "new_DebouncedSyncManager ms = \<lparr> debounceMs = ms, queue_data = Map.empty, timer = None \<rparr>"

text \<open>
  Modelled from the spec: \<open>queue(category, partialData)\<close> merges the partial object
  into the pending entry of the category, field by field, the new value of a field
  replacing the old one, and restarts the debounce timer.
\<close>

definition queue :: "int \<Rightarrow> string \<Rightarrow> data_object \<Rightarrow> DebouncedSyncManager \<Rightarrow> DebouncedSyncManager" where
  "queue now category partialData m =
     m \<lparr> queue_data := (queue_data m)(category \<mapsto>
            (case queue_data m category of
               None \<Rightarrow> partialData
             | Some pendingEntry \<Rightarrow> pendingEntry ++ partialData)),
         timer := Some (now + debounceMs m) \<rparr>"

text \<open>Modelled from the spec: true iff the queue is non-empty.\<close>

definition hasPendingData :: "DebouncedSyncManager \<Rightarrow> bool" where
  "hasPendingData m = (queue_data m \<noteq> Map.empty)"

text \<open>Modelled from the spec: discards the pending data and cancels the timer.\<close>

definition clear :: "DebouncedSyncManager \<Rightarrow> DebouncedSyncManager" where
  "clear m = m \<lparr> queue_data := Map.empty, timer := None \<rparr>"

section \<open>Programs\<close>

subsection \<open>The world a client runs in\<close>

text \<open>
  \<open>storage\<close> is the content of the token store (the \<open>TokenStorage\<close> contract:
  get, set, clear); \<open>currentUser\<close> and \<open>syncManager\<close> are the client's fields;
  \<open>verifiers\<close> is the PKCE module's association of a state with its code verifier;
  \<open>clock\<close> is what \<open>Date.now()\<close> reads; \<open>sent\<close> lists the requests given to
  \<open>fetch\<close> so far, oldest first.
\<close>

record world =
  storage :: "TokenData option"
  currentUser :: "FunUser option"
  syncManager :: "DebouncedSyncManager option"
  verifiers :: "string \<rightharpoonup> string"
  clock :: int
  sent :: "http_request list"

subsection \<open>Asynchronous code as a tree of effects\<close>

text \<open>
  An \<open>async\<close> function is a program: it returns, throws, reads or updates the world,
  or calls \<open>fetch\<close> and continues with what the call settles to. Programs are finite
  trees, so every program runs to an end.
\<close>

datatype 'a prog =
    Return 'a
  | Throw error
  | Read "world \<Rightarrow> 'a prog"
  | Update "world \<Rightarrow> world" "'a prog"
  | Fetch http_request "fetch_result \<Rightarrow> 'a prog"

text \<open>\<open>await p k\<close>: run \<open>p\<close>, then \<open>k\<close> on its value; an exception of \<open>p\<close> propagates.\<close>

primrec await :: "'a prog \<Rightarrow> ('a \<Rightarrow> 'b prog) \<Rightarrow> 'b prog" where
  "await (Return a) k = k a"
| "await (Throw e) k = Throw e"
| "await (Read f) k = Read (\<lambda>w. await (f w) k)"
| "await (Update u p) k = Update u (await p k)"
| "await (Fetch r f) k = Fetch r (\<lambda>x. await (f x) k)"

text \<open>\<open>try_catch p h\<close>: \<open>try { p } catch (e) { h e }\<close>.\<close>

primrec try_catch :: "'a prog \<Rightarrow> (error \<Rightarrow> 'a prog) \<Rightarrow> 'a prog" where
  "try_catch (Return a) h = Return a"
| "try_catch (Throw e) h = h e"
| "try_catch (Read f) h = Read (\<lambda>w. try_catch (f w) h)"
| "try_catch (Update u p) h = Update u (try_catch p h)"
| "try_catch (Fetch r f) h = Fetch r (\<lambda>x. try_catch (f x) h)"

subsection \<open>Running one program to its end\<close>

text \<open>
  The network is a parameter: \<open>net history r\<close> is what the request \<open>r\<close> settles to
  when \<open>history\<close> lists the requests sent before it. A request is logged when it is
  sent, and the clock has advanced by the time the call settles.
\<close>

type_synonym network = "http_request list \<Rightarrow> http_request \<Rightarrow> fetch_result"

primrec run :: "network \<Rightarrow> 'a prog \<Rightarrow> world \<Rightarrow> (error + 'a) \<times> world" where
  "run net (Return a) w = (Inr a, w)"
| "run net (Throw e) w = (Inl e, w)"
| "run net (Read f) w = run net (f w) w"
| "run net (Update u p) w = run net p (u w)"
| "run net (Fetch r f) w =
     run net (f (net (sent w) r))
       (w \<lparr> sent := sent w @ [r], clock := clock w + int (elapsed (net (sent w) r)) \<rparr>)"

subsection \<open>Running several calls at once\<close>

text \<open>
  Cooperative scheduling on one thread, with the suspension points the specification
  names: the network requests. A call runs without interruption until it awaits the
  network, where it is suspended with its request in flight; it runs again when its
  request settles. The awaits of the token store are not scheduling points: the store
  settles them without the network, and a call that has not sent its request yet has
  only read the world.
\<close>

datatype 'a status =
    Suspended http_request "fetch_result \<Rightarrow> 'a prog"
  | Completed "error + 'a"

primrec advance :: "'a prog \<Rightarrow> world \<Rightarrow> 'a status \<times> world" where
  "advance (Return a) w = (Completed (Inr a), w)"
| "advance (Throw e) w = (Completed (Inl e), w)"
| "advance (Read f) w = advance (f w) w"
| "advance (Update u p) w = advance p (u w)"
| "advance (Fetch r f) w = (Suspended r f, w \<lparr> sent := sent w @ [r] \<rparr>)"





section \<open>The JavaScript the client relies on\<close>

text \<open>\<open>a || d\<close> on an optional string: \<open>undefined\<close> and the empty string are falsy.\<close>

fun truthy :: "string option \<Rightarrow> bool" where
  "truthy None = False"
| "truthy (Some s) = (s \<noteq> [])"

definition js_or :: "string option \<Rightarrow> string option \<Rightarrow> string option" where
  "js_or a b = (if truthy a then a else b)"

fun or_default :: "string option \<Rightarrow> string \<Rightarrow> string" where
  "or_default None d = d"
| "or_default (Some s) d = (if s = [] then d else s)"

text \<open>\<open>s.includes(p)\<close> on strings\<close>

fun str_includes :: "string \<Rightarrow> string \<Rightarrow> bool" where
  "str_includes [] p = (p = [])"
| "str_includes (c # cs) p = (prefix p (c # cs) \<or> str_includes cs p)"

text \<open>\<open>s.split(sep)\<close> for a separator of one character: \<open>.split()\<close> is \<open>[]\<close>.\<close>

fun split_on :: "char \<Rightarrow> string \<Rightarrow> string list" where
  "split_on sep [] = [[]]"
| "split_on sep (c # cs) =
     (if c = sep then [] # split_on sep cs
      else (case split_on sep cs of
              [] \<Rightarrow> [[c]]
            | x # xs \<Rightarrow> (c # x) # xs))"

text \<open>\<open>xs.join(sep)\<close>\<close>

fun join_with :: "string \<Rightarrow> string list \<Rightarrow> string" where
  "join_with sep [] = []"
| "join_with sep [x] = x"
| "join_with sep (x # y # ys) = x @ sep @ join_with sep (y # ys)"

text \<open>
  \<open>parseInt(s, 10)\<close>: leading white space, an optional sign, then the longest run
  of decimal digits; \<open>None\<close> is \<open>NaN\<close>. The client parses a header value, whose
  characters are bytes: of the white space and line terminators of JavaScript, those
  below 256 are the space, TAB, LF, VT, FF, CR and the no-break space U+00A0.
\<close>

definition is_whitespace :: "char \<Rightarrow> bool" where
  "is_whitespace c =
     (c \<in> set [CHR '' '', CHR 0x09, CHR 0x0A, CHR 0x0B, CHR 0x0C, CHR 0x0D, CHR 0xA0])"

definition is_digit :: "char \<Rightarrow> bool" where
  "is_digit c = (c \<in> set ''0123456789'')"

definition digits_value :: "string \<Rightarrow> nat" where
  "digits_value ds = foldl (\<lambda>a c. 10 * a + (of_char c - 48)) 0 ds"

definition parseInt :: "string \<Rightarrow> int option" where
  "parseInt s =
     (let t = dropWhile is_whitespace s;
          negative = (t \<noteq> [] \<and> hd t = CHR ''-'');
          u = (if t \<noteq> [] \<and> (hd t = CHR ''-'' \<or> hd t = CHR ''+'') then tl t else t);
          ds = takeWhile is_digit u
      in if ds = [] then None
         else Some (if negative then - int (digits_value ds) else int (digits_value ds)))"

text \<open>The decimal rendering of a status code in a template string.\<close>

fun to_string :: "nat \<Rightarrow> string" where
  "to_string n =
     (if n < 10 then [char_of (48 + n)]
      else to_string (n div 10) @ [char_of (48 + n mod 10)])"

section \<open>The client (FunProfileClient)\<close>

subsection \<open>Collaborators\<close>

text \<open>The token store: \<open>getTokens\<close>, \<open>setTokens\<close>, \<open>clearTokens\<close>.\<close>

definition storage_getTokens :: "TokenData option prog" where
  "storage_getTokens = Read (\<lambda>w. Return (storage w))"

definition storage_setTokens :: "TokenData \<Rightarrow> unit prog" where
  "storage_setTokens t = Update (\<lambda>w. w \<lparr> storage := Some t \<rparr>) (Return ())"

definition storage_clearTokens :: "unit prog" where
  "storage_clearTokens = Update (\<lambda>w. w \<lparr> storage := None \<rparr>) (Return ())"

definition Date_now :: "int prog" where
  "Date_now = Read (\<lambda>w. Return (clock w))"

text \<open>\<open>await fetch(...)\<close>: a rejection is an exception that is not an SDK error.\<close>

definition fetch :: "http_request \<Rightarrow> response prog" where
  "fetch r = Fetch r (\<lambda>x. case outcome x of
                             Rejected msg \<Rightarrow> Throw (JsError (Message msg))
                           | Resolved resp \<Rightarrow> Return resp)"

text \<open>\<open>await response.json()\<close>\<close>

definition response_json :: "response \<Rightarrow> parsed prog" where
  "response_json resp = (case json_result resp of
                           Inl msg \<Rightarrow> Throw (JsError (Message msg))
                         | Inr v \<Rightarrow> Return v)"

text \<open>
  The properties of a parsed body, for a caller whose first read is the property
  \<open>name\<close>: reading a property of \<open>null\<close> throws a \<open>TypeError\<close>.
\<close>

definition properties :: "string \<Rightarrow> parsed \<Rightarrow> response_body prog" where
  "properties name v = (case v of
                          JsonNull \<Rightarrow> Throw (JsError (NullRead name))
                        | JsonObject b \<Rightarrow> Return b)"

text \<open>
  Modelled from the spec: pkce.ts is not part of the sources. A stored verifier is
  resolved by its state at most once: resolving removes it. With nothing stored for
  the state the result is \<open>null\<close>, here \<open>None\<close>, the case \<open>handleCallback\<close> tests for.
\<close>

definition retrieveCodeVerifier :: "string \<Rightarrow> string option prog" where
  "retrieveCodeVerifier state =
     Read (\<lambda>w. Update (\<lambda>w'. w' \<lparr> verifiers := (verifiers w')(state := None) \<rparr>)
                 (Return (verifiers w state)))"

subsection \<open>Private helpers\<close>

text \<open>
  \<open>handleError\<close> never returns: every case of its \<open>switch\<close> throws, unless reading
  a property of \<open>errorData\<close> has thrown before. \<open>thrown_for\<close> is the exception that
  leaves it for a response. \<open>errorData\<close> starts as \<open>{}\<close>, here \<open>None\<close>, an object
  none of whose properties is defined, and stays so unless the response is JSON that
  parses; it is then what the body parses to, \<open>null\<close> included. The arguments of a
  constructor are read from left to right.
\<close>

definition errorData_of :: "response \<Rightarrow> parsed option" where
  "errorData_of resp =
     (if (case content_type resp of None \<Rightarrow> False | Some ct \<Rightarrow> str_includes ct ''application/json'')
      then (case json_result resp of Inl msg \<Rightarrow> None | Inr v \<Rightarrow> Some v)
      else None)"

definition errorData_field ::
  "parsed option \<Rightarrow> string \<Rightarrow> (response_body \<Rightarrow> 'b option) \<Rightarrow> message + 'b option" where
  "errorData_field errorData name f =
     (case errorData of
        None \<Rightarrow> Inr None
      | Some JsonNull \<Rightarrow> Inl (NullRead name)
      | Some (JsonObject b) \<Rightarrow> Inr (f b))"

definition thrown_for :: "response \<Rightarrow> error" where
  "thrown_for resp =
     (let errorData = errorData_of resp
      in if status resp = 401 then
           (case errorData_field errorData ''error_description'' error_description of
              Inl m \<Rightarrow> JsError m
            | Inr description \<Rightarrow> InvalidTokenError description)
         else if status resp = 429 then
           RateLimitError (parseInt (or_default (retry_after resp) ''60''))
         else if status resp = 400 then
           (case errorData_field errorData ''error_description'' error_description of
              Inl m \<Rightarrow> JsError m
            | Inr description \<Rightarrow>
                (case errorData_field errorData ''details'' details of
                   Inl m \<Rightarrow> JsError m
                 | Inr dt \<Rightarrow> ValidationError (or_default description ''Validation failed'') dt))
         else
           (case errorData_field errorData ''error'' json_error of
              Inl m \<Rightarrow> JsError m
            | Inr code \<Rightarrow>
                (case errorData_field errorData ''error_description'' error_description of
                   Inl m \<Rightarrow> JsError m
                 | Inr description \<Rightarrow>
                     (case errorData_field errorData ''details'' details of
                        Inl m \<Rightarrow> JsError m
                      | Inr dt \<Rightarrow>
                          FunProfileError
                            (or_default code ''unknown_error'')
                            (or_default description
                               (''Request failed with status '' @ to_string (status resp)))
                            dt))))"

definition handleError :: "response \<Rightarrow> 'a prog" where
  "handleError resp = Throw (thrown_for resp)"

text \<open>
  \<open>request\<close>: the \<open>catch\<close> rethrows an SDK error and wraps any other exception,
  of message \<open>msg\<close>, in a \<open>NetworkError\<close>. It resolves to what the body parses to,
  which may be \<open>null\<close>.
\<close>

definition request :: "config \<Rightarrow> string \<Rightarrow> RequestOptions \<Rightarrow> parsed prog" where
  "request cfg endpoint options =
     (let url = baseUrl cfg @ endpoint;
          headers = [''Content-Type'' \<mapsto> ''application/json'']
                      ++ (case headers options of None \<Rightarrow> Map.empty | Some h \<Rightarrow> h)
      in try_catch
           (await (fetch \<lparr> url = url,
                            req_method = or_default (http_method options) ''GET'',
                            req_headers = headers,
                            req_body = body options \<rparr>)
              (\<lambda>resp. await (if \<not> ok resp then handleError resp else Return ())
                 (\<lambda>_. response_json resp)))
           (\<lambda>error. if instanceof_FunProfileError error then Throw error
                     else (case error of
                             JsError msg \<Rightarrow> Throw (NetworkError msg)
                           | _ \<Rightarrow> Throw error)))"

definition transformUser :: "user_json \<Rightarrow> FunUser" where
  "transformUser d =
     \<lparr> userId = json_id d,
       funId = fun_id d,
       username = json_username d,
       fullName = full_name d,
       avatarUrl = avatar_url d,
       email = json_email d,
       walletAddress = wallet_address d,
       externalWalletAddress = external_wallet_address d,
       soul = (case soul_nft d of
                 None \<Rightarrow> None
               | Some n \<Rightarrow> Some \<lparr> element = soul_element n, level = soul_level n,
                                  tokenId = token_id n, mintedAt = minted_at n \<rparr>),
       rewards = (case json_rewards d of
                    None \<Rightarrow> None
                  | Some r \<Rightarrow> Some \<lparr> pending = json_pending r, approved = json_approved r,
                                     claimed = json_claimed r, rewards_status = json_status r \<rparr>) \<rparr>"

text \<open>\<open>user: this.currentUser!\<close> is unchecked: the result carries \<open>null\<close> when no user is cached.\<close>

definition transformAuthResult :: "response_body \<Rightarrow> TokenData \<Rightarrow> AuthResult prog" where
  "transformAuthResult resp tokens =
     Read (\<lambda>w. Return
       \<lparr> auth_accessToken = accessToken tokens,
         auth_refreshToken = refreshToken tokens,
         expiresIn = (expiresAt tokens - clock w) div 1000,
         auth_scope = join_with '' '' (scope tokens),
         auth_user = currentUser w,
         isNewUser = is_new_user resp \<rparr>)"

definition handleTokenResponse :: "parsed \<Rightarrow> AuthResult prog" where
  "handleTokenResponse response =
     await (properties ''access_token'' response) (\<lambda>resp.
       await Date_now (\<lambda>now.
         let tokens = \<lparr> accessToken = access_token resp,
                        refreshToken = refresh_token resp,
                        expiresAt = now + expires_in resp * 1000,
                        scope = split_on CHR '' '' (or_default (json_scope resp) []) \<rparr>
         in await (storage_setTokens tokens) (\<lambda>_.
              await (case json_user resp of
                       None \<Rightarrow> Return ()
                     | Some u \<Rightarrow> Update (\<lambda>w. w \<lparr> currentUser := Some (transformUser u) \<rparr>) (Return ()))
                (\<lambda>_. transformAuthResult resp tokens))))"

subsection \<open>Token management\<close>

definition getTokens :: "TokenData option prog" where
  "getTokens = storage_getTokens"

definition refreshTokens :: "constants \<Rightarrow> config \<Rightarrow> TokenData prog" where
  "refreshTokens K cfg =
     await storage_getTokens (\<lambda>stored.
       case stored of
         None \<Rightarrow> Throw (InvalidTokenError (Some ''No tokens available''))
       | Some tokens \<Rightarrow>
           await (request cfg (ENDPOINTS_refresh K)
                    \<lparr> http_method = Some ''POST'', headers = None,
                      body = Some (RefreshTokenGrant (refreshToken tokens) (clientId cfg)
                                     (clientSecret cfg)) \<rparr>)
             (\<lambda>response. await (properties ''access_token'' response) (\<lambda>resp.
                await Date_now (\<lambda>now.
                  let newTokens =
                        \<lparr> accessToken = access_token resp,
                          refreshToken = js_or (refresh_token resp) (refreshToken tokens),
                          expiresAt = now + expires_in resp * 1000,
                          scope = (case json_scope resp of
                                     None \<Rightarrow> scope tokens
                                   | Some s \<Rightarrow> split_on CHR '' '' s) \<rparr>
                  in await (storage_setTokens newTokens) (\<lambda>_. Return newTokens)))))"

definition isAuthenticated :: "constants \<Rightarrow> config \<Rightarrow> bool prog" where
  "isAuthenticated K cfg =
     await storage_getTokens (\<lambda>stored.
       case stored of
         None \<Rightarrow> Return False
       | Some tokens \<Rightarrow>
           await Date_now (\<lambda>now.
             if now \<ge> expiresAt tokens - TOKEN_REFRESH_BUFFER K then
               (if autoRefresh cfg then
                  try_catch (await (refreshTokens K cfg) (\<lambda>_. Return True))
                    (\<lambda>_. Return False)
                else Return False)
             else Return True))"

text \<open>\<open>getAccessToken\<close> resolves to a string or to \<open>null\<close>, here \<open>None\<close>.\<close>

definition getAccessToken :: "constants \<Rightarrow> config \<Rightarrow> string option prog" where
  "getAccessToken K cfg =
     await storage_getTokens (\<lambda>stored.
       case stored of
         None \<Rightarrow> Return None
       | Some tokens \<Rightarrow>
           await Date_now (\<lambda>now.
             if now \<ge> expiresAt tokens - TOKEN_REFRESH_BUFFER K then
               (if autoRefresh cfg then
                  await (refreshTokens K cfg) (\<lambda>newTokens. Return (Some (accessToken newTokens)))
                else Throw TokenExpiredError)
             else Return (Some (accessToken tokens))))"

definition authenticatedRequest :: "constants \<Rightarrow> config \<Rightarrow> string \<Rightarrow> RequestOptions \<Rightarrow> parsed prog" where
  "authenticatedRequest K cfg endpoint options =
     await (getAccessToken K cfg) (\<lambda>token.
       if \<not> truthy token then Throw (InvalidTokenError (Some ''Not authenticated''))
       else request cfg endpoint
              (options \<lparr> headers :=
                 Some ((case headers options of None \<Rightarrow> Map.empty | Some h \<Rightarrow> h)
                         (''Authorization'' \<mapsto> ''Bearer '' @ or_default token [])) \<rparr>))"

subsection \<open>Authentication\<close>

definition handleCallback :: "constants \<Rightarrow> config \<Rightarrow> string \<Rightarrow> string \<Rightarrow> AuthResult prog" where
  "handleCallback K cfg code state =
     await (retrieveCodeVerifier state) (\<lambda>codeVerifier.
       if \<not> truthy codeVerifier then
         Throw (ValidationError ''Invalid state parameter - possible CSRF attack'' None)
       else
         await (request cfg (ENDPOINTS_token K)
                  \<lparr> http_method = Some ''POST'', headers = None,
                    body = Some (AuthorizationCodeGrant code (redirectUri cfg) (clientId cfg)
                                   (clientSecret cfg) (or_default codeVerifier [])) \<rparr>)
           handleTokenResponse)"

subsection \<open>User data\<close>

definition getCachedUser :: "FunUser option prog" where
  "getCachedUser = Read (\<lambda>w. Return (currentUser w))"

text \<open>The body of the request is built, and the clock read, before the access token is asked for.\<close>

definition syncData :: "constants \<Rightarrow> config \<Rightarrow> SyncOptions \<Rightarrow> SyncResult prog" where
  "syncData K cfg options =
     await Date_now (\<lambda>now.
       let client_timestamp =
             (case clientTimestamp options of
                None \<Rightarrow> ISOString now
              | Some (Timestamp s) \<Rightarrow> if s = [] then ISOString now else Timestamp s
              | Some (ISOString t) \<Rightarrow> ISOString t)
       in await (authenticatedRequest K cfg (ENDPOINTS_syncData K)
                   \<lparr> http_method = Some ''POST'', headers = None,
                     body = Some (SyncRequest (mode options) (data options) (categories options)
                                    client_timestamp) \<rparr>)
            (\<lambda>response. await (properties ''success'' response) (\<lambda>resp. Return
               \<lparr> sync_success = success resp,
                 syncedAt = synced_at resp,
                 syncMode = json_sync_mode resp,
                 syncCount = sync_count resp,
                 categoriesUpdated = categories_updated resp,
                 dataSize = data_size resp \<rparr>)))"

subsection \<open>Sync manager\<close>

text \<open>The callback \<open>getSyncManager\<close> gives to the manager it constructs.\<close>

definition sync_callback :: "constants \<Rightarrow> config \<Rightarrow> platform_data \<Rightarrow> unit prog" where
  "sync_callback K cfg d =
     await Date_now (\<lambda>now.
       await (syncData K cfg \<lparr> mode = Merge, data = d, categories = None,
                               clientTimestamp = Some (ISOString now) \<rparr>)
         (\<lambda>_. Return ()))"

text \<open>\<open>getSyncManager(debounceMs = 3000)\<close>: \<open>None\<close> is an omitted argument.\<close>

definition getSyncManager :: "int option \<Rightarrow> DebouncedSyncManager prog" where
  "getSyncManager debounce =
     Read (\<lambda>w. case syncManager w of
                 None \<Rightarrow>
                   (let m = new_DebouncedSyncManager (case debounce of None \<Rightarrow> 3000 | Some ms \<Rightarrow> ms)
                    in Update (\<lambda>w'. w' \<lparr> syncManager := Some m \<rparr>) (Return m))
               | Some m \<Rightarrow> Return m)"

text \<open>
  Modelled from the spec: \<open>flush\<close> of the client's manager. With nothing pending it
  does nothing and sends nothing. Otherwise it takes the pending queue, cancels the
  timer and gives the whole queue to the callback in one call; when the callback
  fails the taken data goes back under whatever was queued since, and the failure
  propagates.
\<close>

definition restore :: "platform_data \<Rightarrow> DebouncedSyncManager \<Rightarrow> DebouncedSyncManager" where
  "restore taken m =
     m \<lparr> queue_data := (\<lambda>category.
            case (taken category, queue_data m category) of
              (None, later) \<Rightarrow> later
            | (Some old, None) \<Rightarrow> Some old
            | (Some old, Some later) \<Rightarrow> Some (old ++ later)) \<rparr>"

definition flush :: "(platform_data \<Rightarrow> unit prog) \<Rightarrow> unit prog" where
  "flush callback =
     Read (\<lambda>w. case syncManager w of
                 None \<Rightarrow> Return ()
               | Some m \<Rightarrow>
                   if \<not> hasPendingData m then Return ()
                   else Update (\<lambda>w'. w' \<lparr> syncManager := map_option clear (syncManager w') \<rparr>)
                          (try_catch (callback (queue_data m))
                             (\<lambda>e. Update (\<lambda>w'. w' \<lparr> syncManager :=
                                                    map_option (restore (queue_data m)) (syncManager w') \<rparr>)
                                    (Throw e))))"

subsection \<open>Logout\<close>

definition logout :: "constants \<Rightarrow> config \<Rightarrow> unit prog" where
  "logout K cfg =
     await (Read (\<lambda>w. case syncManager w of
                        None \<Rightarrow> Return ()
                      | Some m \<Rightarrow>
                          if hasPendingData m then
                            try_catch (flush (sync_callback K cfg)) (\<lambda>_. Return ())
                          else Return ()))
       (\<lambda>_. await storage_getTokens (\<lambda>stored.
          await (case stored of
                   None \<Rightarrow> Return ()
                 | Some tokens \<Rightarrow>
                     try_catch
                       (await (request cfg (ENDPOINTS_revoke K)
                                 \<lparr> http_method = Some ''POST'', headers = None,
                                   body = Some (RevokeRequest (accessToken tokens) (clientId cfg)) \<rparr>)
                          (\<lambda>_. Return ()))
                       (\<lambda>_. Return ()))
            (\<lambda>_. await storage_clearTokens (\<lambda>_.
               Update (\<lambda>w. w \<lparr> currentUser := None \<rparr>)
                 (Update (\<lambda>w. w \<lparr> syncManager := map_option clear (syncManager w) \<rparr>)
                    (Return ()))))))"

section \<open>Vocabulary of the properties\<close>

text \<open>The request that \<open>request\<close> gives to \<open>fetch\<close>.\<close>

definition request_sent :: "config \<Rightarrow> string \<Rightarrow> RequestOptions \<Rightarrow> http_request" where
  "request_sent cfg endpoint options =
     \<lparr> url = baseUrl cfg @ endpoint,
       req_method = or_default (http_method options) ''GET'',
       req_headers = [''Content-Type'' \<mapsto> ''application/json'']
                       ++ (case headers options of None \<Rightarrow> Map.empty | Some h \<Rightarrow> h),
       req_body = body options \<rparr>"

text \<open>
  What the \<open>catch\<close> of \<open>request\<close> throws for an exception caught, and what a call
  of \<open>request\<close> ends with, given what its \<open>fetch\<close> settles to.
\<close>

fun rethrown :: "error \<Rightarrow> error" where
  "rethrown (JsError msg) = NetworkError msg"
| "rethrown e = e"

definition settle :: "fetch_result \<Rightarrow> error + parsed" where
  "settle x =
     (case outcome x of
        Rejected msg \<Rightarrow> Inl (NetworkError (Message msg))
      | Resolved resp \<Rightarrow>
          if ok resp then
            (case json_result resp of
               Inl msg \<Rightarrow> Inl (NetworkError (Message msg))
             | Inr v \<Rightarrow> Inr v)
          else Inl (rethrown (thrown_for resp)))"

text \<open>The refresh request of a client whose store holds the record \<open>t\<close>.\<close>

definition refresh_request :: "constants \<Rightarrow> config \<Rightarrow> TokenData \<Rightarrow> http_request" where
  "refresh_request K cfg t =
     request_sent cfg (ENDPOINTS_refresh K)
       \<lparr> http_method = Some ''POST'', headers = None,
         body = Some (RefreshTokenGrant (refreshToken t) (clientId cfg) (clientSecret cfg)) \<rparr>"

text \<open>The record a refresh stores: from the record \<open>t\<close> read, the body \<open>b\<close> and the instant \<open>now\<close>.\<close>

definition refreshed :: "TokenData \<Rightarrow> int \<Rightarrow> response_body \<Rightarrow> TokenData" where
  "refreshed t now b =
     \<lparr> accessToken = access_token b,
       refreshToken = js_or (refresh_token b) (refreshToken t),
       expiresAt = now + expires_in b * 1000,
       scope = (case json_scope b of None \<Rightarrow> scope t | Some s \<Rightarrow> split_on CHR '' '' s) \<rparr>"



text \<open>A record is stale when the clock has reached its expiry less the refresh buffer.\<close>

definition stale :: "constants \<Rightarrow> world \<Rightarrow> TokenData \<Rightarrow> bool" where
  "stale K w t = (clock w \<ge> expiresAt t - TOKEN_REFRESH_BUFFER K)"


text \<open>The pending sync data of a client: none when it has no sync manager.\<close>

definition pending_data :: "world \<Rightarrow> platform_data" where
  "pending_data w = (case syncManager w of None \<Rightarrow> Map.empty | Some m \<Rightarrow> queue_data m)"





section \<open>Concrete instances\<close>

definition K0 :: constants where
  "K0 = \<lparr> DEFAULT_BASE_URL = ''https://fun.rich'', DEFAULT_SCOPES = [''profile''],
          TOKEN_REFRESH_BUFFER = 60000, ENDPOINTS_token = ''/sso-token'',
          ENDPOINTS_refresh = ''/sso-refresh'', ENDPOINTS_revoke = ''/sso-revoke'',
          ENDPOINTS_syncData = ''/sso-sync-data'' \<rparr>"

definition cfg0 :: config where
  "cfg0 = FunProfileClient K0
            \<lparr> cfg_clientId = ''fun_farm_production'', cfg_clientSecret = None,
              cfg_redirectUri = ''https://farm.fun.rich/auth/callback'',
              cfg_baseUrl = None, cfg_scopes = None, cfg_autoRefresh = None \<rparr>"

text \<open>A record that expires at instant 1000000, and a client holding it (or nothing) at a given instant.\<close>

definition tokens0 :: TokenData where
  "tokens0 = \<lparr> accessToken = ''a0'', refreshToken = Some ''r0'', expiresAt = 1000000,
               scope = [''profile''] \<rparr>"

definition world0 :: "int \<Rightarrow> TokenData option \<Rightarrow> world" where
  "world0 now stored =
     \<lparr> storage = stored, currentUser = None, syncManager = None, verifiers = Map.empty,
       clock = now, sent = [] \<rparr>"

text \<open>A token response carrying a given access token and a given \<open>refresh_token\<close> field.\<close>

definition token_body :: "string \<Rightarrow> string option \<Rightarrow> response_body" where
  "token_body a r =
     \<lparr> access_token = a, refresh_token = r, expires_in = 3600, json_scope = None,
       json_user = None, is_new_user = None, json_error = None, error_description = None,
       details = None, success = True, synced_at = [], json_sync_mode = [], sync_count = 0,
       categories_updated = [], data_size = 0 \<rparr>"

definition json_response :: "nat \<Rightarrow> response_body \<Rightarrow> response" where
  "json_response code b =
     \<lparr> status = code, content_type = Some ''application/json'', retry_after = None,
       json_result = Inr (JsonObject b) \<rparr>"

definition respond :: "nat \<Rightarrow> response_body \<Rightarrow> fetch_result" where
  "respond code b = \<lparr> elapsed = 120, outcome = Resolved (json_response code b) \<rparr>"

text \<open>
  Networks: one that grants every request, one that grants with an empty
  \<open>refresh_token\<close>, one that answers 401, one that answers 400, one that is down.
\<close>

definition net_ok :: network where
  "net_ok history r = respond 200 (token_body ''a1'' (Some ''r1''))"

definition net_blank :: network where
  "net_blank history r = respond 200 (token_body ''a1'' (Some []))"

definition body_401 :: response_body where
  "body_401 = (token_body [] None) \<lparr> json_error := Some ''invalid_token'',
                                      error_description := Some ''Refresh token revoked'' \<rparr>"

definition net_401 :: network where
  "net_401 history r = respond 401 body_401"

text \<open>
  A server that rejects the refresh token the way OAuth 2.0 prescribes: status 400
  with the error \<open>invalid_grant\<close>.
\<close>

definition body_400 :: response_body where
  "body_400 = (token_body [] None) \<lparr> json_error := Some ''invalid_grant'',
                                      error_description := Some ''Refresh token revoked'' \<rparr>"

definition net_400 :: network where
  "net_400 history r = respond 400 body_400"

definition net_down :: network where
  "net_down history r = \<lparr> elapsed = 30000, outcome = Rejected ''Failed to fetch'' \<rparr>"


text \<open>A client that has started an authorization: a verifier is stored for the state \<open>st1\<close>.\<close>

definition pending_auth :: world where
  "pending_auth = (world0 900000 None) \<lparr> verifiers := [''st1'' \<mapsto> ''v1''] \<rparr>"

text \<open>A signed-in client with a cached user and sync data waiting to be sent.\<close>

definition user0 :: FunUser where
  "user0 = \<lparr> userId = ''u1'', funId = ''fun_1'', username = ''farmer'', fullName = None,
             avatarUrl = None, email = None, walletAddress = None,
             externalWalletAddress = None, soul = None, rewards = None \<rparr>"

definition busy_manager :: DebouncedSyncManager where
  "busy_manager = queue 899000 ''farm_stats'' [''gold'' \<mapsto> JNum 150] (new_DebouncedSyncManager 3000)"

definition busy :: world where
  "busy = (world0 900000 (Some tokens0))
            \<lparr> currentUser := Some user0, syncManager := Some busy_manager \<rparr>"







section \<open>Properties\<close>

subsection \<open>Running composed programs\<close>

lemma run_await:
  "run net (await p k) w =
     (case run net p w of
        (Inl e, w') \<Rightarrow> (Inl e, w')
      | (Inr a, w') \<Rightarrow> run net (k a) w')"
  by (induction p arbitrary: w) simp_all

lemma run_try_catch:
  "run net (try_catch p h) w =
     (case run net p w of
        (Inl e, w') \<Rightarrow> run net (h e) w'
      | (Inr a, w') \<Rightarrow> (Inr a, w'))"
  by (induction p arbitrary: w) simp_all



text \<open>The scheduler with a single call is the sequential run.\<close>

lemma run_advance:
  "run net p w =
     (case advance p w of
        (Completed y, w') \<Rightarrow> (y, w')
      | (Suspended r f, w') \<Rightarrow>
          run net (f (net (butlast (sent w')) r))
            (w' \<lparr> clock := clock w' + int (elapsed (net (butlast (sent w')) r)) \<rparr>))"
  by (induction p arbitrary: w) simp_all

subsection \<open>Requests\<close>

lemma request_catch:
  "(if instanceof_FunProfileError e then Throw e
    else (case e of JsError msg \<Rightarrow> Throw (NetworkError msg) | _ \<Rightarrow> Throw e))
     = Throw (rethrown e)"
  by (cases e) simp_all

text \<open>A call of \<open>request\<close> sends one request and changes nothing but the log and the clock.\<close>

lemma run_request:
  "run net (request cfg ep opts) w =
     (settle (net (sent w) (request_sent cfg ep opts)),
      w \<lparr> sent := sent w @ [request_sent cfg ep opts],
          clock := clock w + int (elapsed (net (sent w) (request_sent cfg ep opts))) \<rparr>)"
  unfolding request_def request_sent_def fetch_def response_json_def handleError_def settle_def Let_def
  by (simp add: run_try_catch run_await request_catch split: fetch_outcome.splits sum.splits)


text \<open>
  An answer of status 401 ends the request with an \<open>InvalidTokenError\<close>, unless its
  body is JSON that parses to \<open>null\<close>: then the read of \<open>error_description\<close> throws
  and the request ends with a \<open>NetworkError\<close>.
\<close>

lemma settle_401:
  "outcome x = Resolved resp \<Longrightarrow> status resp = 401 \<Longrightarrow>
   settle x =
     (case errorData_of resp of
        None \<Rightarrow> Inl (InvalidTokenError None)
      | Some JsonNull \<Rightarrow> Inl (NetworkError (NullRead ''error_description''))
      | Some (JsonObject b) \<Rightarrow> Inl (InvalidTokenError (error_description b)))"
  by (simp add: settle_def ok_def thrown_for_def errorData_field_def Let_def
      split: option.splits parsed.splits)

text \<open>Of the answers that are not granted, only those of status 401 end with an \<open>InvalidTokenError\<close>.\<close>

lemma settle_InvalidTokenError:
  "settle x = Inl (InvalidTokenError d) \<Longrightarrow> \<exists>resp. outcome x = Resolved resp \<and> status resp = 401"
  by (auto simp add: settle_def thrown_for_def errorData_field_def Let_def
      split: fetch_outcome.splits sum.splits if_splits option.splits parsed.splits)

lemma settle_ok:
  "outcome x = Resolved resp \<Longrightarrow> ok resp \<Longrightarrow> json_result resp = Inr v \<Longrightarrow> settle x = Inr v"
  by (simp add: settle_def)

subsection \<open>Refreshing\<close>

lemma run_refreshTokens_none:
  "storage w = None \<Longrightarrow>
   run net (refreshTokens K cfg) w = (Inl (InvalidTokenError (Some ''No tokens available'')), w)"
  by (simp add: refreshTokens_def storage_getTokens_def)

lemma run_refreshTokens_some:
  assumes "storage w = Some t"
  shows "run net (refreshTokens K cfg) w =
     (let x = net (sent w) (refresh_request K cfg t);
          w1 = w \<lparr> sent := sent w @ [refresh_request K cfg t], clock := clock w + int (elapsed x) \<rparr>
      in case settle x of
           Inl e \<Rightarrow> (Inl e, w1)
         | Inr JsonNull \<Rightarrow> (Inl (JsError (NullRead ''access_token'')), w1)
         | Inr (JsonObject b) \<Rightarrow>
             (Inr (refreshed t (clock w1) b), w1 \<lparr> storage := Some (refreshed t (clock w1) b) \<rparr>))"
  using assms
  by (simp add: refreshTokens_def storage_getTokens_def storage_setTokens_def Date_now_def
      properties_def run_await run_request refresh_request_def refreshed_def Let_def
      split: sum.splits parsed.splits)

text \<open>No failure of \<open>refreshTokens\<close>, whatever its cause, touches the store.\<close>

lemma refreshTokens_failure_keeps_storage:
  assumes "fst (run net (refreshTokens K cfg) w) = Inl e"
  shows "storage (snd (run net (refreshTokens K cfg) w)) = storage w"
proof (cases "storage w")
  case None
  then show ?thesis by (simp add: run_refreshTokens_none)
next
  case (Some t)
  then show ?thesis using assms
    by (simp add: run_refreshTokens_some Let_def split: sum.splits parsed.splits)
qed

text \<open>
  An answer of status 401 whose body is JSON that parses to \<open>null\<close>: the read of
  \<open>error_description\<close> throws inside \<open>handleError\<close>, and \<open>refreshTokens\<close> fails with
  the \<open>NetworkError\<close> that wraps the \<open>TypeError\<close>.
\<close>

lemma refreshTokens_401_null_body:
  assumes "storage w = Some t"
      and "outcome (net (sent w) (refresh_request K cfg t)) = Resolved resp"
      and "status resp = 401" and "errorData_of resp = Some JsonNull"
  shows "fst (run net (refreshTokens K cfg) w) = Inl (NetworkError (NullRead ''error_description''))"
  using settle_401[OF assms(2,3)] assms(1,4)
  by (simp add: run_refreshTokens_some Let_def)

text \<open>
  C2 as stated fails: which failure surfaces is decided by the status of the answer
  alone. Here the server rejects the refresh token with status 400 and the error
  \<open>invalid_grant\<close>, and \<open>refreshTokens\<close> fails with a \<open>ValidationError\<close>, not with
  an \<open>InvalidTokenError\<close>.
\<close>

theorem refreshTokens_rejected_400_counterexample:
  "storage (world0 990000 (Some tokens0)) = Some tokens0
   \<and> outcome (net_400 (sent (world0 990000 (Some tokens0))) (refresh_request K0 cfg0 tokens0))
       = Resolved (json_response 400 body_400)
   \<and> json_error body_400 = Some ''invalid_grant''
   \<and> fst (run net_400 (refreshTokens K0 cfg0) (world0 990000 (Some tokens0)))
       = Inl (ValidationError ''Refresh token revoked'' None)"
proof -
  have "storage (world0 990000 (Some tokens0)) = Some tokens0"
    by (simp add: world0_def)
  then show ?thesis
    by (simp add: run_refreshTokens_some Let_def settle_def net_400_def respond_def
        json_response_def ok_def thrown_for_def errorData_of_def errorData_field_def
        body_400_def token_body_def)
qed

text \<open>
  C2, amended. For a client whose store holds the record \<open>t\<close>: when the refresh
  request is answered with status 401, and the body of the answer is not JSON that
  parses to \<open>null\<close>, \<open>refreshTokens\<close> fails with an \<open>InvalidTokenError\<close>, which
  carries the \<open>error_description\<close> of the body if it has one; when \<open>refreshTokens\<close>
  fails with an \<open>InvalidTokenError\<close>, the request was answered with status 401; and
  whenever \<open>refreshTokens\<close> fails, for this or any other reason, the store still
  holds \<open>t\<close>.
\<close>

theorem refreshTokens_rejected_keeps_record:
  assumes "storage w = Some t"
  shows "(outcome (net (sent w) (refresh_request K cfg t)) = Resolved resp \<and> status resp = 401
            \<and> errorData_of resp \<noteq> Some JsonNull
            \<longrightarrow> fst (run net (refreshTokens K cfg) w)
                  = Inl (InvalidTokenError
                           (case errorData_of resp of
                              Some (JsonObject b) \<Rightarrow> error_description b
                            | _ \<Rightarrow> None)))
         \<and> (fst (run net (refreshTokens K cfg) w) = Inl (InvalidTokenError d)
            \<longrightarrow> (\<exists>r. outcome (net (sent w) (refresh_request K cfg t)) = Resolved r
                      \<and> status r = 401))
         \<and> (fst (run net (refreshTokens K cfg) w) = Inl e
            \<longrightarrow> storage (snd (run net (refreshTokens K cfg) w)) = Some t)"
proof -
  have "fst (run net (refreshTokens K cfg) w)
          = Inl (InvalidTokenError
                   (case errorData_of resp of
                      Some (JsonObject b) \<Rightarrow> error_description b
                    | _ \<Rightarrow> None))"
    if "outcome (net (sent w) (refresh_request K cfg t)) = Resolved resp" and "status resp = 401"
      and "errorData_of resp \<noteq> Some JsonNull"
    using settle_401[OF that(1,2)] that(3) assms
    by (simp add: run_refreshTokens_some Let_def split: option.splits parsed.splits)
  moreover have "\<exists>r. outcome (net (sent w) (refresh_request K cfg t)) = Resolved r \<and> status r = 401"
    if "fst (run net (refreshTokens K cfg) w) = Inl (InvalidTokenError d)"
  proof -
    from that assms
    have "settle (net (sent w) (refresh_request K cfg t)) = Inl (InvalidTokenError d)"
      by (simp add: run_refreshTokens_some Let_def split: sum.splits parsed.splits)
    then show ?thesis
      by (rule settle_InvalidTokenError)
  qed
  moreover have "storage (snd (run net (refreshTokens K cfg) w)) = Some t"
    if "fst (run net (refreshTokens K cfg) w) = Inl e"
    using refreshTokens_failure_keeps_storage[OF that] assms by simp
  ultimately show ?thesis
    by blast
qed

theorem refreshTokens_rejected_keeps_record_witness:
  "storage (world0 990000 (Some tokens0)) = Some tokens0
   \<and> outcome (net_401 (sent (world0 990000 (Some tokens0))) (refresh_request K0 cfg0 tokens0))
       = Resolved (json_response 401 body_401)
   \<and> status (json_response 401 body_401) = 401
   \<and> errorData_of (json_response 401 body_401) = Some (JsonObject body_401)
   \<and> fst (run net_401 (refreshTokens K0 cfg0) (world0 990000 (Some tokens0)))
       = Inl (InvalidTokenError (Some ''Refresh token revoked''))
   \<and> storage (snd (run net_401 (refreshTokens K0 cfg0) (world0 990000 (Some tokens0))))
       = Some tokens0"
proof -
  have h1: "storage (world0 990000 (Some tokens0)) = Some tokens0"
    by (simp add: world0_def)
  have h2: "outcome (net_401 (sent (world0 990000 (Some tokens0))) (refresh_request K0 cfg0 tokens0))
              = Resolved (json_response 401 body_401)"
    by (simp add: net_401_def respond_def)
  have h3: "status (json_response 401 body_401) = 401"
    by (simp add: json_response_def)
  have h4: "errorData_of (json_response 401 body_401) = Some (JsonObject body_401)"
    by (simp add: errorData_of_def json_response_def)
  have h5: "error_description body_401 = Some ''Refresh token revoked''"
    by (simp add: body_401_def token_body_def)
  note rejected = refreshTokens_rejected_keeps_record[where net = net_401 and K = K0
      and cfg = cfg0 and resp = "json_response 401 body_401"
      and e = "InvalidTokenError (Some ''Refresh token revoked'')", OF h1]
  have h6: "fst (run net_401 (refreshTokens K0 cfg0) (world0 990000 (Some tokens0)))
              = Inl (InvalidTokenError (Some ''Refresh token revoked''))"
    using rejected h2 h3 h4 h5 by simp
  then have "storage (snd (run net_401 (refreshTokens K0 cfg0) (world0 990000 (Some tokens0))))
          = Some tokens0"
    using rejected by blast
  with h1 h2 h3 h4 h6 show ?thesis
    by blast
qed

text \<open>
  C3 as stated fails: \<open>||\<close> takes the previous token also when the response
  carries a \<open>refresh_token\<close> that is the empty string. Here the server supplies
  an empty \<open>refresh_token\<close> and the stored record keeps \<open>r0\<close>.
\<close>

theorem refreshTokens_blank_refresh_token_counterexample:
  "outcome (net_blank (sent (world0 990000 (Some tokens0))) (refresh_request K0 cfg0 tokens0))
     = Resolved (json_response 200 (token_body ''a1'' (Some [])))
   \<and> refresh_token (token_body ''a1'' (Some [])) = Some []
   \<and> refreshToken tokens0 = Some ''r0''
   \<and> map_option refreshToken
         (storage (snd (run net_blank (refreshTokens K0 cfg0) (world0 990000 (Some tokens0)))))
       = Some (Some ''r0'')"
proof -
  have "storage (world0 990000 (Some tokens0)) = Some tokens0"
    by (simp add: world0_def)
  then show ?thesis
    by (simp add: run_refreshTokens_some Let_def settle_def net_blank_def respond_def
        json_response_def ok_def token_body_def tokens0_def refreshed_def js_or_def)
qed

text \<open>
  C3, amended. After a successful refresh (a response with a status from 200 to 299
  whose body \<open>b\<close> parses) the stored record is the one returned, and its
  \<open>refreshToken\<close> is the \<open>refresh_token\<close> of \<open>b\<close> when \<open>b\<close> has one that is not
  empty, and the \<open>refreshToken\<close> of the previous record \<open>t\<close> otherwise.
\<close>

theorem refreshTokens_stores_refresh_token:
  assumes "storage w = Some t"
      and "outcome (net (sent w) (refresh_request K cfg t)) = Resolved resp"
      and "ok resp" and "json_result resp = Inr (JsonObject b)"
  shows "\<exists>new. fst (run net (refreshTokens K cfg) w) = Inr new
           \<and> storage (snd (run net (refreshTokens K cfg) w)) = Some new
           \<and> refreshToken new =
               (if truthy (refresh_token b) then refresh_token b else refreshToken t)"
  using assms(1) settle_ok[OF assms(2,3,4)]
  by (simp add: run_refreshTokens_some Let_def refreshed_def js_or_def)

theorem refreshTokens_stores_refresh_token_witness:
  "storage (world0 990000 (Some tokens0)) = Some tokens0
   \<and> outcome (net_ok (sent (world0 990000 (Some tokens0))) (refresh_request K0 cfg0 tokens0))
       = Resolved (json_response 200 (token_body ''a1'' (Some ''r1'')))
   \<and> ok (json_response 200 (token_body ''a1'' (Some ''r1'')))
   \<and> json_result (json_response 200 (token_body ''a1'' (Some ''r1'')))
       = Inr (JsonObject (token_body ''a1'' (Some ''r1'')))
   \<and> (\<exists>new. fst (run net_ok (refreshTokens K0 cfg0) (world0 990000 (Some tokens0))) = Inr new
         \<and> storage (snd (run net_ok (refreshTokens K0 cfg0) (world0 990000 (Some tokens0)))) = Some new
         \<and> refreshToken new = Some ''r1'')"
proof -
  have h1: "storage (world0 990000 (Some tokens0)) = Some tokens0"
    by (simp add: world0_def)
  have h2: "outcome (net_ok (sent (world0 990000 (Some tokens0))) (refresh_request K0 cfg0 tokens0))
              = Resolved (json_response 200 (token_body ''a1'' (Some ''r1'')))"
    by (simp add: net_ok_def respond_def)
  have h3: "ok (json_response 200 (token_body ''a1'' (Some ''r1'')))"
    by (simp add: ok_def json_response_def)
  have h4: "json_result (json_response 200 (token_body ''a1'' (Some ''r1'')))
              = Inr (JsonObject (token_body ''a1'' (Some ''r1'')))"
    by (simp add: json_response_def)
  have "refresh_token (token_body ''a1'' (Some ''r1'')) = Some ''r1''"
    by (simp add: token_body_def)
  with refreshTokens_stores_refresh_token[where net = net_ok and K = K0 and cfg = cfg0, OF h1 h2 h3 h4]
    h1 h2 h3 h4
  show ?thesis by simp
qed

subsection \<open>The access token\<close>

text \<open>
  C6. When the stored record \<open>t\<close> expires more than the refresh buffer after the
  instant of the call, \<open>getAccessToken\<close> returns the access token of \<open>t\<close> and leaves
  the whole world as it was: the store is unchanged and no request is sent.
\<close>

theorem getAccessToken_fresh:
  assumes "storage w = Some t"
      and "clock w + TOKEN_REFRESH_BUFFER K < expiresAt t"
  shows "run net (getAccessToken K cfg) w = (Inr (Some (accessToken t)), w)"
  using assms by (simp add: getAccessToken_def storage_getTokens_def Date_now_def)

theorem getAccessToken_fresh_witness:
  "storage (world0 900000 (Some tokens0)) = Some tokens0
   \<and> clock (world0 900000 (Some tokens0)) + TOKEN_REFRESH_BUFFER K0 < expiresAt tokens0
   \<and> run net_down (getAccessToken K0 cfg0) (world0 900000 (Some tokens0))
       = (Inr (Some ''a0''), world0 900000 (Some tokens0))"
proof -
  have h1: "storage (world0 900000 (Some tokens0)) = Some tokens0"
    by (simp add: world0_def)
  have h2: "clock (world0 900000 (Some tokens0)) + TOKEN_REFRESH_BUFFER K0 < expiresAt tokens0"
    by (simp add: world0_def K0_def tokens0_def)
  have "accessToken tokens0 = ''a0''"
    by (simp add: tokens0_def)
  with getAccessToken_fresh[where net = net_down and cfg = cfg0, OF h1 h2] h1 h2
  show ?thesis by simp
qed

text \<open>
  C7 as stated fails: with an empty store \<open>getAccessToken\<close> does not fail, it
  resolves to \<open>null\<close>.
\<close>

theorem getAccessToken_unauthenticated_counterexample:
  "storage (world0 900000 None) = None
   \<and> run net_ok (getAccessToken K0 cfg0) (world0 900000 None) = (Inr None, world0 900000 None)"
  by (simp add: getAccessToken_def storage_getTokens_def world0_def)

text \<open>
  C7, amended. With an empty store \<open>getAccessToken\<close> resolves to \<open>null\<close>: it returns
  no token, raises nothing, sends nothing and changes nothing. The failure
  \<open>InvalidTokenError('Not authenticated')\<close> is raised by \<open>authenticatedRequest\<close>,
  which every authenticated call goes through.
\<close>

theorem getAccessToken_unauthenticated:
  assumes "storage w = None"
  shows "run net (getAccessToken K cfg) w = (Inr None, w)
         \<and> run net (authenticatedRequest K cfg endpoint options) w
             = (Inl (InvalidTokenError (Some ''Not authenticated'')), w)"
  using assms
  by (simp add: authenticatedRequest_def getAccessToken_def storage_getTokens_def)

theorem getAccessToken_unauthenticated_witness:
  "storage (world0 900000 None) = None
   \<and> run net_ok (getAccessToken K0 cfg0) (world0 900000 None) = (Inr None, world0 900000 None)
   \<and> run net_ok (authenticatedRequest K0 cfg0 (ENDPOINTS_syncData K0)
                    \<lparr> http_method = Some ''POST'', headers = None, body = None \<rparr>)
         (world0 900000 None)
       = (Inl (InvalidTokenError (Some ''Not authenticated'')), world0 900000 None)"
proof -
  have h: "storage (world0 900000 None) = None"
    by (simp add: world0_def)
  from getAccessToken_unauthenticated[where net = net_ok and K = K0 and cfg = cfg0, OF h] h
  show ?thesis by simp
qed

subsection \<open>The boolean query\<close>

text \<open>\<open>isAuthenticated\<close> never throws.\<close>

lemma isAuthenticated_never_throws:
  "\<exists>b. fst (run net (isAuthenticated K cfg) w) = Inr b"
  by (auto simp add: isAuthenticated_def storage_getTokens_def Date_now_def
      run_await run_try_catch split: prod.splits sum.splits option.splits)

text \<open>
  C8. When the stored record is stale and refreshing fails, with whatever error,
  \<open>isAuthenticated\<close> returns \<open>false\<close>: the call ends with a value, not with the error.
\<close>

theorem isAuthenticated_swallows_refresh_failure:
  assumes "storage w = Some t" and "stale K w t"
      and "fst (run net (refreshTokens K cfg) w) = Inl e"
  shows "fst (run net (isAuthenticated K cfg) w) = Inr False"
  using assms
  by (auto simp add: isAuthenticated_def storage_getTokens_def Date_now_def stale_def
      run_await run_try_catch split: prod.splits sum.splits)

theorem isAuthenticated_swallows_refresh_failure_witness:
  "storage (world0 990000 (Some tokens0)) = Some tokens0
   \<and> stale K0 (world0 990000 (Some tokens0)) tokens0
   \<and> autoRefresh cfg0
   \<and> fst (run net_401 (refreshTokens K0 cfg0) (world0 990000 (Some tokens0)))
       = Inl (InvalidTokenError (Some ''Refresh token revoked''))
   \<and> fst (run net_401 (isAuthenticated K0 cfg0) (world0 990000 (Some tokens0))) = Inr False"
proof -
  have h1: "storage (world0 990000 (Some tokens0)) = Some tokens0"
    by (simp add: world0_def)
  have h2: "stale K0 (world0 990000 (Some tokens0)) tokens0"
    by (simp add: stale_def world0_def K0_def tokens0_def)
  have h3: "fst (run net_401 (refreshTokens K0 cfg0) (world0 990000 (Some tokens0)))
              = Inl (InvalidTokenError (Some ''Refresh token revoked''))"
    using h1
    by (simp add: run_refreshTokens_some Let_def settle_def net_401_def respond_def
        json_response_def ok_def thrown_for_def errorData_of_def errorData_field_def
        body_401_def token_body_def)
  have h4: "autoRefresh cfg0"
    by (simp add: cfg0_def FunProfileClient_def)
  from isAuthenticated_swallows_refresh_failure[OF h1 h2 h3] h1 h2 h3 h4
  show ?thesis by simp
qed

subsection \<open>Concurrent callers\<close>









subsection \<open>The callback of the authorization\<close>

lemma run_handleTokenResponse_verifiers:
  "verifiers (snd (run net (handleTokenResponse v) w)) = verifiers w"
  by (simp add: handleTokenResponse_def transformAuthResult_def storage_setTokens_def Date_now_def
      properties_def Let_def run_await split: option.splits parsed.splits)

text \<open>Whatever a callback ends with, the verifier of its state is gone afterwards.\<close>

lemma handleCallback_consumes:
  "verifiers (snd (run net (handleCallback K cfg code state) w)) state = None"
  by (simp add: handleCallback_def retrieveCodeVerifier_def run_await run_request
      run_handleTokenResponse_verifiers split: sum.splits prod.splits)

text \<open>
  C4. When no verifier is stored for the state (none was ever stored, or a callback
  has consumed it), \<open>handleCallback\<close> fails with the \<open>ValidationError\<close> of the CSRF
  check and leaves the whole world as it was: the token store is unchanged and no
  request is sent.
\<close>

theorem handleCallback_unknown_state:
  assumes "verifiers w state = None"
  shows "run net (handleCallback K cfg code state) w
           = (Inl (ValidationError ''Invalid state parameter - possible CSRF attack'' None), w)"
proof -
  have "(verifiers w)(state := None) = verifiers w"
    using assms by (simp add: fun_upd_idem)
  then show ?thesis
    using assms by (simp add: handleCallback_def retrieveCodeVerifier_def)
qed

text \<open>
  An instance: a second callback with a state that a first, successful callback has
  consumed.
\<close>

lemma first_callback:
  "fst (run net_ok (handleCallback K0 cfg0 ''code1'' ''st1'') pending_auth)
     = Inr \<lparr> auth_accessToken = ''a1'', auth_refreshToken = Some ''r1'', expiresIn = 3600,
             auth_scope = [], auth_user = None, isNewUser = None \<rparr>"
  by (simp add: handleCallback_def retrieveCodeVerifier_def run_await run_request
      handleTokenResponse_def transformAuthResult_def storage_setTokens_def Date_now_def
      properties_def Let_def pending_auth_def world0_def settle_def net_ok_def respond_def
      json_response_def ok_def token_body_def)

theorem handleCallback_unknown_state_witness:
  "verifiers pending_auth ''st1'' = Some ''v1''
   \<and> verifiers (snd (run net_ok (handleCallback K0 cfg0 ''code1'' ''st1'') pending_auth)) ''st1'' = None
   \<and> run net_ok (handleCallback K0 cfg0 ''code1'' ''st1'')
         (snd (run net_ok (handleCallback K0 cfg0 ''code1'' ''st1'') pending_auth))
       = (Inl (ValidationError ''Invalid state parameter - possible CSRF attack'' None),
          snd (run net_ok (handleCallback K0 cfg0 ''code1'' ''st1'') pending_auth))"
proof -
  have h: "verifiers (snd (run net_ok (handleCallback K0 cfg0 ''code1'' ''st1'') pending_auth)) ''st1''
             = None"
    by (rule handleCallback_consumes)
  have "verifiers pending_auth ''st1'' = Some ''v1''"
    by (simp add: pending_auth_def)
  with handleCallback_unknown_state[where net = net_ok and K = K0 and cfg = cfg0
      and code = "''code1''", OF h] h
  show ?thesis by simp
qed

subsection \<open>Logout\<close>

text \<open>
  C5. From every state of the client and with every network, \<open>logout\<close> ends
  without an error, and at its end the token store is empty, no user is cached and
  no sync data is pending. The network is arbitrary, so this holds when the flush and
  the revoke request both fail.
\<close>

theorem logout_always_clears:
  "fst (run net (logout K cfg) w) = Inr ()
   \<and> storage (snd (run net (logout K cfg) w)) = None
   \<and> currentUser (snd (run net (logout K cfg) w)) = None
   \<and> pending_data (snd (run net (logout K cfg) w)) = Map.empty"
  by (simp add: logout_def storage_getTokens_def storage_clearTokens_def pending_data_def clear_def
      run_await run_try_catch split: prod.splits sum.splits option.splits)

text \<open>
  An instance: a signed-in client with pending sync data, and the network down. The
  flush fails, the revoke request fails, and the logout still clears everything.
\<close>

lemma busy_pending: "hasPendingData busy_manager"
  by (simp add: hasPendingData_def busy_manager_def queue_def new_DebouncedSyncManager_def)

lemma net_down_settle: "settle (net_down h r) = Inl (NetworkError (Message ''Failed to fetch''))"
  by (simp add: settle_def net_down_def)

lemma busy_flush_fails:
  "fst (run net_down (flush (sync_callback K0 cfg0)) busy) = Inl (NetworkError (Message ''Failed to fetch''))"
  using busy_pending
  by (simp add: flush_def sync_callback_def syncData_def authenticatedRequest_def
      getAccessToken_def storage_getTokens_def Date_now_def run_await run_try_catch run_request
      net_down_settle busy_def world0_def tokens0_def K0_def Let_def)

lemma busy_revoke_fails:
  "fst (run net_down (request cfg0 (ENDPOINTS_revoke K0)
          \<lparr> http_method = Some ''POST'', headers = None,
            body = Some (RevokeRequest (accessToken tokens0) (clientId cfg0)) \<rparr>) w)
     = Inl (NetworkError (Message ''Failed to fetch''))"
  by (simp add: run_request net_down_settle)

theorem logout_always_clears_witness:
  "storage busy = Some tokens0
   \<and> currentUser busy = Some user0
   \<and> map_option hasPendingData (syncManager busy) = Some True
   \<and> fst (run net_down (flush (sync_callback K0 cfg0)) busy) = Inl (NetworkError (Message ''Failed to fetch''))
   \<and> fst (run net_down (request cfg0 (ENDPOINTS_revoke K0)
             \<lparr> http_method = Some ''POST'', headers = None,
               body = Some (RevokeRequest (accessToken tokens0) (clientId cfg0)) \<rparr>) busy)
       = Inl (NetworkError (Message ''Failed to fetch''))
   \<and> fst (run net_down (logout K0 cfg0) busy) = Inr ()
   \<and> storage (snd (run net_down (logout K0 cfg0) busy)) = None
   \<and> currentUser (snd (run net_down (logout K0 cfg0) busy)) = None
   \<and> pending_data (snd (run net_down (logout K0 cfg0) busy)) = Map.empty"
proof -
  have "storage busy = Some tokens0" and "currentUser busy = Some user0"
    and "map_option hasPendingData (syncManager busy) = Some True"
    using busy_pending by (simp_all add: busy_def world0_def)
  then show ?thesis
    using logout_always_clears[of net_down K0 cfg0 busy] busy_flush_fails busy_revoke_fails
    by simp
qed

subsection \<open>The sync manager of a client\<close>

text \<open>Once a client has a manager, \<open>getSyncManager\<close> returns it and changes nothing.\<close>

lemma getSyncManager_existing:
  "syncManager w = Some m \<Longrightarrow> run net (getSyncManager d) w = (Inr m, w)"
  by (simp add: getSyncManager_def)

text \<open>
  C10. On a client that has no sync manager yet, \<open>getSyncManager\<close> constructs one
  with the given debounce interval (3000 when the argument is omitted) and keeps it.
  A second call, with whatever argument, returns that same manager and changes nothing:
  its interval is the one of the first call. So does every call made in a state \<open>w'\<close>
  where the client has a manager.
\<close>

theorem getSyncManager_once:
  assumes "syncManager w = None"
  shows "run net (getSyncManager d1) w
           = (Inr (new_DebouncedSyncManager (case d1 of None \<Rightarrow> 3000 | Some ms \<Rightarrow> ms)),
              w \<lparr> syncManager :=
                    Some (new_DebouncedSyncManager (case d1 of None \<Rightarrow> 3000 | Some ms \<Rightarrow> ms)) \<rparr>)
         \<and> debounceMs (new_DebouncedSyncManager (case d1 of None \<Rightarrow> 3000 | Some ms \<Rightarrow> ms))
             = (case d1 of None \<Rightarrow> 3000 | Some ms \<Rightarrow> ms)
         \<and> run net (getSyncManager d2) (snd (run net (getSyncManager d1) w))
             = (fst (run net (getSyncManager d1) w), snd (run net (getSyncManager d1) w))
         \<and> (syncManager w' = Some m \<longrightarrow> run net (getSyncManager d3) w' = (Inr m, w'))"
  using assms by (simp add: getSyncManager_def Let_def new_DebouncedSyncManager_def)

theorem getSyncManager_once_witness:
  "syncManager (world0 900000 None) = None
   \<and> fst (run net_ok (getSyncManager (Some 5000)) (world0 900000 None))
       = Inr (new_DebouncedSyncManager 5000)
   \<and> debounceMs (new_DebouncedSyncManager 5000) = 5000
   \<and> fst (run net_ok (getSyncManager (Some 100))
             (snd (run net_ok (getSyncManager (Some 5000)) (world0 900000 None))))
       = Inr (new_DebouncedSyncManager 5000)
   \<and> snd (run net_ok (getSyncManager (Some 100))
             (snd (run net_ok (getSyncManager (Some 5000)) (world0 900000 None))))
       = snd (run net_ok (getSyncManager (Some 5000)) (world0 900000 None))
   \<and> syncManager busy = Some busy_manager
   \<and> run net_ok (getSyncManager None) busy = (Inr busy_manager, busy)"
proof -
  have h: "syncManager (world0 900000 None) = None"
    by (simp add: world0_def)
  have b: "syncManager busy = Some busy_manager"
    by (simp add: busy_def)
  note once = getSyncManager_once[where net = net_ok and ?d1.0 = "Some 5000"
      and ?d2.0 = "Some 100" and ?d3.0 = None and w' = busy and m = busy_manager, OF h]
  have first: "fst (run net_ok (getSyncManager (Some 5000)) (world0 900000 None))
                 = Inr (new_DebouncedSyncManager 5000)"
    using once by simp
  have interval: "debounceMs (new_DebouncedSyncManager 5000) = 5000"
    using once by simp
  have "run net_ok (getSyncManager (Some 100))
          (snd (run net_ok (getSyncManager (Some 5000)) (world0 900000 None)))
        = (fst (run net_ok (getSyncManager (Some 5000)) (world0 900000 None)),
           snd (run net_ok (getSyncManager (Some 5000)) (world0 900000 None)))"
    using once by blast
  then have "fst (run net_ok (getSyncManager (Some 100))
                    (snd (run net_ok (getSyncManager (Some 5000)) (world0 900000 None))))
               = Inr (new_DebouncedSyncManager 5000)"
    and "snd (run net_ok (getSyncManager (Some 100))
                (snd (run net_ok (getSyncManager (Some 5000)) (world0 900000 None))))
           = snd (run net_ok (getSyncManager (Some 5000)) (world0 900000 None))"
    using first by simp_all
  moreover have "run net_ok (getSyncManager None) busy = (Inr busy_manager, busy)"
    using once b by blast
  ultimately show ?thesis
    using h b first interval by blast
qed

subsection \<open>Merging queued updates\<close>







text \<open>What \<open>flush\<close> gives to the callback is the whole queue.\<close>

lemma flush_sends_queue:
  assumes "syncManager w = Some m" and "hasPendingData m"
  shows "run net (flush callback) w =
     (case run net (callback (queue_data m)) (w \<lparr> syncManager := Some (clear m) \<rparr>) of
        (Inl e, w') \<Rightarrow>
          (Inl e, w' \<lparr> syncManager := map_option (restore (queue_data m)) (syncManager w') \<rparr>)
      | (Inr u, w') \<Rightarrow> (Inr u, w'))"
  using assms by (simp add: flush_def run_try_catch split: prod.splits sum.splits)



end
